theory Spec2Isabelle
  imports Complex_Main "HOL-Library.Code_Target_Numeral"
begin

section \<open>Values\<close>

text \<open>
  A Python float is an IEEE double: \<open>Fin q\<close> is the finite double whose exact value is
  the rational \<open>q\<close> (positive zero is \<open>Fin 0\<close>), \<open>NegZero\<close> is \<open>-0.0\<close>.
\<close>

datatype pyfloat = Fin rat | NegZero | PosInf | NegInf | NaN

text \<open>
  The values that \<open>r.json()\<close> hands to the adapters (\<open>Any\<close> in the source): what
  Python's \<open>json\<close> module produces. A dict is the list of its items.
\<close>

datatype json =
    JNull
  | JBool bool
  | JInt int
  | JFloat pyfloat
  | JStr string
  | JList "json list"
  | JObj "(string \<times> json) list"

text \<open>Python truthiness, as used by \<open>if x\<close>, \<open>x or y\<close> and \<open>not x\<close>.\<close>

fun truthy :: "json \<Rightarrow> bool" where
  "truthy JNull = False"
| "truthy (JBool b) = b"
| "truthy (JInt i) = (i \<noteq> 0)"
| "truthy (JFloat f) = (f \<noteq> Fin 0 \<and> f \<noteq> NegZero)"
| "truthy (JStr s) = (s \<noteq> [])"
| "truthy (JList xs) = (xs \<noteq> [])"
| "truthy (JObj kvs) = (kvs \<noteq> [])"

text \<open>\<open>a or b\<close>\<close>

definition py_or :: "json \<Rightarrow> json \<Rightarrow> json" where
  "py_or a b = (if truthy a then a else b)"

section \<open>The common record\<close>

text \<open>
  The dict that every adapter returns has a fixed set of keys; the nested dicts under
  \<open>"asn"\<close>, \<open>"company"\<close> and \<open>"privacy"\<close> are built by \<open>_asn_block\<close>,
  \<open>_isp_to_company\<close> and \<open>_privacy_guess\<close>. The keys \<open>"asn"\<close>, \<open>"name"\<close>, \<open>"domain"\<close>,
  \<open>"type"\<close> of the nested dicts carry the name of their dict as a prefix here.
  Fields that an adapter copies from the provider's body keep the type \<open>json\<close>.
  \<open>confidence\<close> and \<open>age_ms\<close> are keys that only the merge adds: \<open>None\<close> is a
  missing key.
\<close>

record asn_block =
  asn_asn :: string
  asn_name :: string
  asn_domain :: string
  asn_type :: string

record company_block =
  company_name :: string
  company_domain :: string
  company_type :: string

record privacy_block =
  vpn :: bool
  proxy :: bool
  tor :: bool
  relay :: bool
  hosting :: bool

record normalized =
  ip :: json
  city :: json
  region :: json
  region_code :: json
  country :: json
  country_code :: json
  continent :: json
  continent_code :: json
  loc :: json
  postal :: json
  timezone :: json
  asn :: asn_block
  company :: company_block
  privacy :: privacy_block
  source :: "string list"
  confidence :: "pyfloat option"
  age_ms :: "int option"

section \<open>Exceptions and builtins\<close>

text \<open>
  The exceptions that the code under the adapters' \<open>try\<close> can raise. All of them are
  subclasses of \<open>Exception\<close>. A computation that may raise returns \<open>Inl\<close> of the
  exception; \<open>raise_bind\<close> runs the next statement when the first one returned.
\<close>

datatype error =
    AttributeError | TypeError | KeyError | IndexError | ValueError | OverflowError
  | TransportError | JSONDecodeError

definition raise_bind :: "error + 'a \<Rightarrow> ('a \<Rightarrow> error + 'b) \<Rightarrow> error + 'b" where
  "raise_bind m f = (case m of Inl e \<Rightarrow> Inl e | Inr v \<Rightarrow> f v)"

text \<open>
  Three library functions are not spelled out here and are taken as parameters:
  \<open>ipaddress.ip_address\<close> (whether it accepts the text), \<open>float\<close> on a string
  (\<open>None\<close> is its \<open>ValueError\<close>), and \<open>str\<close> on a float, a list or a dict.
\<close>

record builtins =
  ip_address :: "string \<Rightarrow> bool"
  float_of_str :: "string \<Rightarrow> pyfloat option"
  repr_of :: "json \<Rightarrow> string"

section \<open>Strings\<close>

text \<open>
  Strings are lists of 8-bit characters. \<open>upper\<close>, \<open>lower\<close> and \<open>strip\<close> are those of
  Python on ASCII text: case is mapped on the 26 letters, white space is the ASCII white
  space of \<open>str.isspace\<close>.
\<close>

definition upper_char :: "char \<Rightarrow> char" where
  "upper_char c =
     (case map_of (zip ''abcdefghijklmnopqrstuvwxyz'' ''ABCDEFGHIJKLMNOPQRSTUVWXYZ'') c of
        Some u \<Rightarrow> u | None \<Rightarrow> c)"

definition lower_char :: "char \<Rightarrow> char" where
  "lower_char c =
     (case map_of (zip ''ABCDEFGHIJKLMNOPQRSTUVWXYZ'' ''abcdefghijklmnopqrstuvwxyz'') c of
        Some l \<Rightarrow> l | None \<Rightarrow> c)"

definition upper :: "string \<Rightarrow> string" where
  "upper s = map upper_char s"

definition lower :: "string \<Rightarrow> string" where
  "lower s = map lower_char s"

definition isspace :: "char \<Rightarrow> bool" where
  "isspace c \<longleftrightarrow> c \<in> set [CHR 0x09, CHR 0x0A, CHR 0x0B, CHR 0x0C, CHR 0x0D,
                            CHR 0x1C, CHR 0x1D, CHR 0x1E, CHR 0x1F, CHR '' '']"

text \<open>\<open>s.strip()\<close>\<close>

definition strip :: "string \<Rightarrow> string" where
  "strip s = rev (dropWhile isspace (rev (dropWhile isspace s)))"

text \<open>\<open>s.lstrip(chars)\<close>: every leading character that occurs in \<open>chars\<close> goes.\<close>

definition lstrip :: "string \<Rightarrow> string \<Rightarrow> string" where
  "lstrip chars s = dropWhile (\<lambda>c. c \<in> set chars) s"

text \<open>\<open>k in s\<close> on strings.\<close>

fun contains :: "string \<Rightarrow> string \<Rightarrow> bool" where
  "contains k [] = (k = [])"
| "contains k (c # cs) = (take (length k) (c # cs) = k \<or> contains k cs)"

text \<open>\<open>s.split(" ", 1)\<close>: at most one split, at the first space.\<close>

definition split1 :: "string \<Rightarrow> string list" where
  "split1 s =
     (if CHR '' '' \<in> set s
      then [takeWhile (\<lambda>c. c \<noteq> CHR '' '') s, tl (dropWhile (\<lambda>c. c \<noteq> CHR '' '') s)]
      else [s])"

text \<open>Decimal digits of a natural number, and \<open>str\<close> of an \<open>int\<close>.\<close>

fun show_nat :: "nat \<Rightarrow> string" where
  "show_nat n = (if n < 10 then [''0123456789'' ! n] else show_nat (n div 10) @ [''0123456789'' ! (n mod 10)])"

declare show_nat.simps [simp del]

definition show_int :: "int \<Rightarrow> string" where
  "show_int i = (if i < 0 then ''-'' @ show_nat (nat (- i)) else show_nat (nat i))"

text \<open>\<open>str(v)\<close>\<close>

definition py_str :: "builtins \<Rightarrow> json \<Rightarrow> string" where
  "py_str B v =
     (case v of
        JNull \<Rightarrow> ''None''
      | JBool b \<Rightarrow> (if b then ''True'' else ''False'')
      | JInt i \<Rightarrow> show_int i
      | JStr s \<Rightarrow> s
      | _ \<Rightarrow> repr_of B v)"

text \<open>
  A string method (\<open>strip\<close>, \<open>lower\<close>, \<open>split\<close>) called on a value: only a \<open>str\<close> has it,
  every other value raises \<open>AttributeError\<close>.
\<close>

definition str_method :: "json \<Rightarrow> error + string" where
  "str_method v = (case v of JStr s \<Rightarrow> Inr s | _ \<Rightarrow> Inl AttributeError)"

text \<open>
  \<open>.get\<close> called on a value: only a dict has it. \<open>dict_get\<close> is \<open>d.get(k)\<close> on the
  items of a dict, \<open>None\<close> for a missing key.
\<close>

definition dict_items :: "json \<Rightarrow> error + (string \<times> json) list" where
  "dict_items v = (case v of JObj kvs \<Rightarrow> Inr kvs | _ \<Rightarrow> Inl AttributeError)"

definition dict_get :: "(string \<times> json) list \<Rightarrow> string \<Rightarrow> json" where
  "dict_get kvs k = (case map_of kvs k of None \<Rightarrow> JNull | Some v \<Rightarrow> v)"

section \<open>Floats\<close>

text \<open>Number of binary digits of a natural number (\<open>int.bit_length\<close>).\<close>

fun bit_length :: "nat \<Rightarrow> nat" where
  "bit_length n = (if n = 0 then 0 else Suc (bit_length (n div 2)))"

declare bit_length.simps [simp del]

text \<open>Rounding a non-negative rational to the nearest integer, ties to even.\<close>

definition round_half_even :: "rat \<Rightarrow> nat" where
  "round_half_even x =
     (let f = nat \<lfloor>x\<rfloor>; r = x - of_nat f
      in if r < 1 / 2 then f else if 1 / 2 < r then f + 1 else if even f then f else f + 1)"

text \<open>
  \<open>float(i)\<close> for an \<open>int\<close>: the nearest double, ties to even; \<open>OverflowError\<close> when
  that is \<open>2 ^ 1024\<close> or more.
\<close>

definition float_of_int :: "int \<Rightarrow> error + pyfloat" where
  "float_of_int i =
     (let n = nat \<bar>i\<bar>;
          e = bit_length n - 53;
          m = round_half_even (of_nat n / 2 ^ e) * 2 ^ e
      in if 2 ^ 1024 \<le> m then Inl OverflowError
         else Inr (Fin (if i < 0 then - of_nat m else of_nat m)))"

text \<open>\<open>float(v)\<close>\<close>

definition py_float :: "builtins \<Rightarrow> json \<Rightarrow> error + pyfloat" where
  "py_float B v =
     (case v of
        JNull \<Rightarrow> Inl TypeError
      | JBool b \<Rightarrow> Inr (Fin (if b then 1 else 0))
      | JInt i \<Rightarrow> float_of_int i
      | JFloat f \<Rightarrow> Inr f
      | JStr s \<Rightarrow> (case float_of_str B s of None \<Rightarrow> Inl ValueError | Some f \<Rightarrow> Inr f)
      | JList xs \<Rightarrow> Inl TypeError
      | JObj kvs \<Rightarrow> Inl TypeError)"

text \<open>\<open>lo <= f <= hi\<close> for a float between two integers; a NaN compares false.\<close>

definition float_between :: "int \<Rightarrow> pyfloat \<Rightarrow> int \<Rightarrow> bool" where
  "float_between lo f hi =
     (case f of
        Fin q \<Rightarrow> of_int lo \<le> q \<and> q \<le> of_int hi
      | NegZero \<Rightarrow> lo \<le> 0 \<and> 0 \<le> hi
      | _ \<Rightarrow> False)"

text \<open>
  \<open>f"{x:.6f}"\<close>: the exact value of the double rounded to six decimals, ties to even;
  the sign is that of the double, also when the digits are all zero.
\<close>

definition format_6f :: "pyfloat \<Rightarrow> string" where
  "format_6f f =
     (case f of
        Fin q \<Rightarrow>
          (let n = round_half_even (\<bar>q\<bar> * 1000000);
               frac = show_nat (n mod 1000000)
           in (if q < 0 then ''-'' else [])
              @ show_nat (n div 1000000) @ ''.'' @ replicate (6 - length frac) CHR ''0'' @ frac)
      | NegZero \<Rightarrow> ''-0.000000''
      | PosInf \<Rightarrow> ''inf''
      | NegInf \<Rightarrow> ''-inf''
      | NaN \<Rightarrow> ''nan'')"

section \<open>Normalisation helpers\<close>

text \<open>\<open>_norm_coord\<close>: any exception of the two conversions is passed over.\<close>

definition norm_coord :: "builtins \<Rightarrow> json \<Rightarrow> json \<Rightarrow> string option" where
  "norm_coord B lat lon =
     (case raise_bind (py_float B lat) (\<lambda>la.
           raise_bind (py_float B lon) (\<lambda>lo.
             if float_between (- 90) la 90 \<and> float_between (- 180) lo 180
             then Inr (Some (format_6f la @ '','' @ format_6f lo))
             else Inr None)) of
        Inl e \<Rightarrow> None
      | Inr r \<Rightarrow> r)"

text \<open>A value of type \<open>Optional[str]\<close> as a field of the record.\<close>

definition json_of_opt :: "string option \<Rightarrow> json" where
  "json_of_opt r = (case r of None \<Rightarrow> JNull | Some s \<Rightarrow> JStr s)"

definition hosting_keywords :: "string list" where
  "hosting_keywords =
     [''aws'', ''amazon'', ''google'', ''gcp'', ''azure'', ''microsoft'', ''cloudflare'', ''ovh'',
      ''digitalocean'', ''hetzner'', ''aliyun'', ''akamai'', ''fastly'', ''oracle cloud'']"

text \<open>\<open>_isp_to_company\<close>\<close>

definition isp_to_company :: "json \<Rightarrow> error + company_block" where
  "isp_to_company isp =
     raise_bind (str_method (py_or isp (JStr []))) (\<lambda>s.
       let isp = strip s;
           ctype = (if \<exists>k\<in>set hosting_keywords. contains k (lower isp) then ''hosting'' else ''isp'')
       in Inr \<lparr>company_name = isp, company_domain = [], company_type = ctype\<rparr>)"

text \<open>
  \<open>_asn_block\<close>. The values of the dict are evaluated in order; the one that can raise
  is \<open>(org or "").lower()\<close>, and when it does not, \<open>org or ""\<close> is a string.
\<close>

definition asn_block :: "builtins \<Rightarrow> json \<Rightarrow> json \<Rightarrow> error + asn_block" where
  "asn_block B asn_v org =
     (let a = upper (py_str B (py_or asn_v (JStr [])));
          a = lstrip ''AS'' a
      in raise_bind (str_method (py_or org (JStr []))) (\<lambda>name.
           Inr \<lparr>asn_asn = (if a \<noteq> [] then ''AS'' @ a else []),
                asn_name = name,
                asn_domain = [],
                asn_type = (if contains ''cloud'' (lower name) then ''hosting'' else ''isp'')\<rparr>))"

text \<open>\<open>_privacy_guess\<close>\<close>

definition privacy_guess :: "string \<Rightarrow> privacy_block" where
  "privacy_guess ctype =
     (let h = (ctype = ''hosting'')
      in \<lparr>vpn = False, proxy = False, tor = False, relay = False, hosting = h\<rparr>)"

section \<open>Provider adapters\<close>

text \<open>
  What an adapter sees of the network: \<open>await client.get(...)\<close> either raises or
  returns a response with a status code, whose \<open>json()\<close> either raises or returns the
  decoded body. The client is a function of the request.
\<close>

record request =
  url :: string
  params :: "(string \<times> string) list"

datatype response = Response (status_code: int) (json_body: "error + json")

type_synonym client = "request \<Rightarrow> error + response"

text \<open>The configuration read from the environment.\<close>

record env =
  IPINFO_TOKEN :: string
  BDC_KEY :: string
  CACHE_TTL_SEC_DEFAULT :: int

text \<open>
  \<open>try: ... except Exception: return None\<close> around the body of an adapter: whatever
  the body raises, the adapter returns \<open>None\<close>.
\<close>

definition except_return_None :: "error + 'a option \<Rightarrow> error + 'a option" where
  "except_return_None body = (case body of Inl e \<Rightarrow> Inr None | Inr r \<Rightarrow> Inr r)"

text \<open>\<open>a or b\<close> where evaluating \<open>b\<close> may raise: \<open>b\<close> is evaluated only when \<open>a\<close> is false.\<close>

definition or_else :: "json \<Rightarrow> error + json \<Rightarrow> error + json" where
  "or_else a b = (if truthy a then Inr a else b)"

text \<open>\<open>v[0]\<close>\<close>

definition subscript0 :: "json \<Rightarrow> error + json" where
  "subscript0 v =
     (case v of
        JList xs \<Rightarrow> (case xs of [] \<Rightarrow> Inl IndexError | x # _ \<Rightarrow> Inr x)
      | JStr s \<Rightarrow> (case s of [] \<Rightarrow> Inl IndexError | c # _ \<Rightarrow> Inr (JStr [c]))
      | JObj kvs \<Rightarrow> Inl KeyError
      | _ \<Rightarrow> Inl TypeError)"

text \<open>The statements under \<open>try\<close> in \<open>p_ipapi\<close>.\<close>

definition p_ipapi_body :: "builtins \<Rightarrow> string \<Rightarrow> client \<Rightarrow> error + normalized option" where
  "p_ipapi_body B addr cl =
     raise_bind (cl \<lparr>url = ''https://ipapi.co/'' @ addr @ ''/json/'', params = []\<rparr>) (\<lambda>r.
       if status_code r \<noteq> 200 then Inr None
       else
         raise_bind (json_body r) (\<lambda>d.
         raise_bind (dict_items d) (\<lambda>d.
           let coord = norm_coord B (dict_get d ''latitude'') (dict_get d ''longitude'');
               isp = dict_get d ''org''
           in raise_bind (asn_block B (dict_get d ''asn'') (dict_get d ''org'')) (\<lambda>a.
              raise_bind (isp_to_company isp) (\<lambda>c.
              raise_bind (isp_to_company isp) (\<lambda>c'.
                Inr (Some
                  \<lparr>ip = py_or (dict_get d ''ip'') (JStr addr),
                   city = dict_get d ''city'',
                   region = dict_get d ''region'',
                   region_code = dict_get d ''region_code'',
                   country = dict_get d ''country_name'',
                   country_code = dict_get d ''country'',
                   continent = JNull,
                   continent_code = JNull,
                   loc = json_of_opt coord,
                   postal = dict_get d ''postal'',
                   timezone = dict_get d ''timezone'',
                   asn = a,
                   company = c,
                   privacy = privacy_guess (company_type c'),
                   source = [''ipapi.co''],
                   confidence = None,
                   age_ms = None\<rparr>)))))))"

definition p_ipapi :: "builtins \<Rightarrow> string \<Rightarrow> client \<Rightarrow> error + normalized option" where
  "p_ipapi B addr cl = except_return_None (p_ipapi_body B addr cl)"

text \<open>
  The statements under \<open>try\<close> in \<open>p_ipinfo\<close>. \<open>org_field.split(" ", 1)\<close> is evaluated
  only when \<open>org_field\<close> is true.
\<close>

definition p_ipinfo_body :: "builtins \<Rightarrow> string \<Rightarrow> string \<Rightarrow> client \<Rightarrow> error + normalized option" where
  "p_ipinfo_body B token addr cl =
     raise_bind (cl \<lparr>url = ''https://ipinfo.io/'' @ addr @ ''?token='' @ token, params = []\<rparr>) (\<lambda>r.
       if status_code r \<noteq> 200 then Inr None
       else
         raise_bind (json_body r) (\<lambda>d.
         raise_bind (dict_items d) (\<lambda>d.
           let coord = dict_get d ''loc'';
               org_field = py_or (dict_get d ''org'') (JStr [])
           in raise_bind (if truthy org_field
                          then raise_bind (str_method org_field) (\<lambda>s. Inr (JStr (last (split1 s))))
                          else Inr JNull) (\<lambda>isp.
              raise_bind (if truthy org_field
                          then raise_bind (str_method org_field) (\<lambda>s. Inr (JStr (hd (split1 s))))
                          else Inr JNull) (\<lambda>asn_code.
              raise_bind (asn_block B asn_code isp) (\<lambda>a.
              raise_bind (isp_to_company isp) (\<lambda>c.
              raise_bind (isp_to_company isp) (\<lambda>c'.
                Inr (Some
                  \<lparr>ip = py_or (dict_get d ''ip'') (JStr addr),
                   city = dict_get d ''city'',
                   region = dict_get d ''region'',
                   region_code = JNull,
                   country = JNull,
                   country_code = dict_get d ''country'',
                   continent = JNull,
                   continent_code = JNull,
                   loc = coord,
                   postal = dict_get d ''postal'',
                   timezone = dict_get d ''timezone'',
                   asn = a,
                   company = c,
                   privacy = privacy_guess (company_type c'),
                   source = [''ipinfo.io''],
                   confidence = None,
                   age_ms = None\<rparr>)))))))))"

definition p_ipinfo :: "builtins \<Rightarrow> env \<Rightarrow> string \<Rightarrow> client \<Rightarrow> error + normalized option" where
  "p_ipinfo B E addr cl =
     (let token = IPINFO_TOKEN E
      in if token = [] then Inr None
         else except_return_None (p_ipinfo_body B token addr cl))"

text \<open>
  The statements under \<open>try\<close> in \<open>p_bigdatacloud\<close>. Each of \<open>loc\<close>, \<open>country\<close>, \<open>net\<close>,
  the time zone and the primary carrier has to be a dict at the first \<open>.get\<close> on it.
\<close>

definition p_bigdatacloud_body :: "builtins \<Rightarrow> string \<Rightarrow> string \<Rightarrow> client \<Rightarrow> error + normalized option" where
  "p_bigdatacloud_body B key addr cl =
     raise_bind (cl \<lparr>url = ''https://api.bigdatacloud.net/data/ip-geolocation'',
                     params = [(''ip'', addr), (''localityLanguage'', ''en''), (''key'', key)]\<rparr>) (\<lambda>r.
       if status_code r \<noteq> 200 then Inr None
       else
         raise_bind (json_body r) (\<lambda>d.
         raise_bind (dict_items d) (\<lambda>d.
           let location = py_or (dict_get d ''location'') (JObj []);
               country_v = py_or (dict_get d ''country'') (JObj []);
               net = py_or (dict_get d ''network'') (JObj [])
           in raise_bind (dict_items location) (\<lambda>location.
              let coord = norm_coord B (dict_get location ''latitude'') (dict_get location ''longitude'');
                  region_name = py_or (dict_get location ''principalSubdivision'')
                                      (dict_get location ''isoPrincipalSubdivision'');
                  rcode = dict_get location ''isoPrincipalSubdivisionCode'';
                  city_v = py_or (dict_get location ''city'') (dict_get location ''localityName'');
                  postal_v = py_or (dict_get location ''postcode'') JNull
              in raise_bind (dict_items (py_or (dict_get location ''timeZone'') (JObj []))) (\<lambda>tzd.
              let tz = dict_get tzd ''ianaTimeId'';
                  continent_v = dict_get location ''continent'';
                  ccode = dict_get location ''continentCode''
              in raise_bind (dict_items country_v) (\<lambda>country_v.
              raise_bind (or_else (dict_get country_v ''name'')
                            (raise_bind (dict_items net) (\<lambda>n. Inr (dict_get n ''registeredCountryName'')))) (\<lambda>country_name.
              raise_bind (or_else (py_or (dict_get country_v ''isoAlpha2'') (dict_get country_v ''isoCode''))
                            (raise_bind (dict_items net) (\<lambda>n. Inr (dict_get n ''registeredCountry'')))) (\<lambda>country_code_v.
              raise_bind (dict_items net) (\<lambda>net.
              let carriers = py_or (dict_get net ''carriers'') (JList [])
              in raise_bind (if truthy carriers then subscript0 carriers else Inr (JObj [])) (\<lambda>primary_carrier.
              raise_bind (dict_items primary_carrier) (\<lambda>primary_carrier.
              let asn_code = py_or (dict_get primary_carrier ''asn'') (dict_get net ''asn'');
                  org = py_or (dict_get primary_carrier ''organisation'') (dict_get net ''organisation'')
              in raise_bind (asn_block B asn_code org) (\<lambda>a.
              raise_bind (isp_to_company org) (\<lambda>c.
              raise_bind (isp_to_company org) (\<lambda>c'.
                Inr (Some
                  \<lparr>ip = JStr addr,
                   city = city_v,
                   region = region_name,
                   region_code = rcode,
                   country = country_name,
                   country_code = country_code_v,
                   continent = continent_v,
                   continent_code = ccode,
                   loc = json_of_opt coord,
                   postal = postal_v,
                   timezone = tz,
                   asn = a,
                   company = c,
                   privacy = privacy_guess (company_type c'),
                   source = [''bigdatacloud''],
                   confidence = None,
                   age_ms = None\<rparr>)))))))))))))))"

definition p_bigdatacloud :: "builtins \<Rightarrow> env \<Rightarrow> string \<Rightarrow> client \<Rightarrow> error + normalized option" where
  "p_bigdatacloud B E addr cl =
     (let key = BDC_KEY E
      in if key = [] then Inr None
         else except_return_None (p_bigdatacloud_body B key addr cl))"

text \<open>
  What the body of an adapter does with the outcome of the request: the rest of the body
  runs only on a response with status 200 whose body decodes.
\<close>

definition no_data :: "error + response \<Rightarrow> bool" where
  "no_data outcome \<longleftrightarrow>
     (case outcome of
        Inl e \<Rightarrow> True
      | Inr r \<Rightarrow> status_code r \<noteq> 200 \<or> (\<exists>e. json_body r = Inl e))"

text \<open>
  The shape that \<open>_asn_block\<close> gives to \<open>asn.asn\<close>: empty, or \<open>AS\<close> followed by a
  non-empty text that starts with neither \<open>A\<close> nor \<open>S\<close>; and the two \<open>domain\<close>
  fields empty.
\<close>

definition asn_shape :: "normalized \<Rightarrow> bool" where
  "asn_shape r \<longleftrightarrow>
     (let a = asn_asn (asn r)
      in a = [] \<or> (take 2 a = ''AS'' \<and> drop 2 a \<noteq> [] \<and> hd (drop 2 a) \<notin> set ''AS''))
     \<and> asn_domain (asn r) = [] \<and> company_domain (company r) = []"

text \<open>
  The format that the description of the record gives for \<open>asn.asn\<close>: empty, or \<open>AS\<close>
  followed by decimal digits.
\<close>

definition as_digits :: "string \<Rightarrow> bool" where
  "as_digits a \<longleftrightarrow> a = [] \<or> (take 2 a = ''AS'' \<and> list_all (\<lambda>c. c \<in> set ''0123456789'') (drop 2 a))"

section \<open>Merge\<close>

text \<open>
  The inner function \<open>score\<close> of \<open>_merge_first_good\<close>: \<open>s\<close> starts at 0 and four
  \<open>if\<close> statements add to it in turn.
\<close>

definition score :: "normalized \<Rightarrow> int" where
  "score d =
    (let s = 0;
         s = (if truthy (loc d) then s + 3 else s);
         s = (if truthy (timezone d) then s + 1 else s);
         s = (if truthy (py_or (country d) (country_code d)) then s + 1 else s);
         s = (if asn_asn (asn d) \<noteq> [] then s + 1 else s)
     in s)"

text \<open>
  \<open>results.sort(key=score, reverse=True)\<close>: Python's sort is stable, and with
  \<open>reverse=True\<close> elements with equal keys still keep their original order. That is the
  stable ascending sort on the negated key.
\<close>

definition sort_reverse :: "('a \<Rightarrow> int) \<Rightarrow> 'a list \<Rightarrow> 'a list" where
  "sort_reverse key xs = sort_key (\<lambda>x. - key x) xs"

text \<open>
  \<open>list(dict.fromkeys(srcs))\<close>: the keys are inserted one by one; a key that is already
  in the dict keeps its place. The first argument is the dict built so far, in insertion
  order.
\<close>

fun fromkeys :: "'a list \<Rightarrow> 'a list \<Rightarrow> 'a list" where
  "fromkeys seen [] = seen"
| "fromkeys seen (x # xs) = (if x \<in> set seen then fromkeys seen xs else fromkeys (seen @ [x]) xs)"

text \<open>The float literals \<open>0.9\<close>, \<open>0.7\<close> and \<open>0.6\<close>: the doubles nearest to them.\<close>

definition float_0_9 :: pyfloat where
  "float_0_9 = Fin (8106479329266893 / 9007199254740992)"

definition float_0_7 :: pyfloat where
  "float_0_7 = Fin (3152519739159347 / 4503599627370496)"

definition float_0_6 :: pyfloat where
  "float_0_6 = Fin (5404319552844595 / 9007199254740992)"

definition merge_first_good :: "normalized list \<Rightarrow> normalized option" where
  "merge_first_good results =
    (if results = [] then None
     else
       (case sort_reverse score results of
          [] \<Rightarrow> None
        | best # rest \<Rightarrow>
            let srcs = concat (map source (best # rest));
                best = best\<lparr>source := fromkeys [] srcs\<rparr>;
                best = best\<lparr>confidence := Some
                         (if 2 \<le> length (source best) \<and> truthy (loc best) then float_0_9
                          else if truthy (loc best) then float_0_7 else float_0_6)\<rparr>;
                best = best\<lparr>age_ms := Some 0\<rparr>
            in Some best))"


text \<open>Two records agree on every key but \<open>source\<close>, \<open>confidence\<close> and \<open>age_ms\<close>.\<close>

definition same_body :: "normalized \<Rightarrow> normalized \<Rightarrow> bool" where
  "same_body m b \<longleftrightarrow>
     m\<lparr>source := [], confidence := None, age_ms := None\<rparr>
       = b\<lparr>source := [], confidence := None, age_ms := None\<rparr>"

section \<open>Cache\<close>

text \<open>
  The in-process backend of \<open>Cache\<close> (\<open>REDIS_URL\<close> empty, so \<open>_redis\<close> is \<open>None\<close>):
  \<open>_mem\<close> maps a key to the pair of the absolute expiry time and the record. The value
  of \<open>time.time()\<close> at the call is the first argument of \<open>get\<close> and \<open>set\<close>; times are
  rationals.
\<close>

record cache =
  mem :: "string \<rightharpoonup> rat \<times> normalized"

definition cache_get :: "rat \<Rightarrow> cache \<Rightarrow> string \<Rightarrow> normalized option \<times> cache" where
  "cache_get now c key =
     (case mem c key of
        None \<Rightarrow> (None, c)
      | Some (expiry, val) \<Rightarrow>
          if expiry < now then (None, c\<lparr>mem := (mem c)(key := None)\<rparr>)
          else (Some val, c))"

definition cache_set :: "rat \<Rightarrow> cache \<Rightarrow> string \<Rightarrow> normalized \<Rightarrow> int \<Rightarrow> cache" where
  "cache_set now c key val ttl = c\<lparr>mem := (mem c)(key \<mapsto> (now + of_int ttl, val))\<rparr>"

section \<open>Lookup\<close>

datatype provider = P_ipapi | P_ipinfo | P_bigdatacloud

definition providers :: "provider list" where
  "providers = [P_ipapi, P_ipinfo, P_bigdatacloud]"

fun run_provider :: "builtins \<Rightarrow> env \<Rightarrow> string \<Rightarrow> client \<Rightarrow> provider \<Rightarrow> error + normalized option" where
  "run_provider B E addr cl P_ipapi = p_ipapi B addr cl"
| "run_provider B E addr cl P_ipinfo = p_ipinfo B E addr cl"
| "run_provider B E addr cl P_bigdatacloud = p_bigdatacloud B E addr cl"

text \<open>
  The loop over \<open>done\<close>: the result of a task is appended when it is a record; a task
  that raised or returned \<open>None\<close> adds nothing.
\<close>

fun collect_results :: "(error + normalized option) list \<Rightarrow> normalized list" where
  "collect_results [] = []"
| "collect_results (Inr (Some r) # ts) = r # collect_results ts"
| "collect_results (t # ts) = collect_results ts"

text \<open>\<open>_validate_ip\<close>\<close>

definition validate_ip :: "builtins \<Rightarrow> string \<Rightarrow> error + string" where
  "validate_ip B addr = (if ip_address B addr then Inr addr else Inl ValueError)"

text \<open>
  \<open>lookup_ip\<close> on the in-process cache. \<open>t_get\<close> and \<open>t_set\<close> are the values of
  \<open>time.time()\<close> inside \<open>cache.get\<close> and \<open>cache.set\<close>. \<open>done\<close> lists the providers
  whose tasks are in the set \<open>done\<close> that \<open>asyncio.wait\<close> returns, in the order in which
  the loop visits that set; the tasks of the other providers are pending and are
  cancelled. On a hit the record in the cache is the object that is returned, so setting
  its \<open>age_ms\<close> changes the stored record too.
\<close>

definition lookup_ip ::
  "builtins \<Rightarrow> env \<Rightarrow> rat \<Rightarrow> rat \<Rightarrow> client \<Rightarrow> provider list \<Rightarrow> cache \<Rightarrow> string
     \<Rightarrow> error + (normalized option \<times> cache)" where
  "lookup_ip B E t_get t_set cl done c addr =
     raise_bind (validate_ip B addr) (\<lambda>addr.
       let ck = ''ip:'' @ addr;
           (cached, c) = cache_get t_get c ck
       in case cached of
            Some v \<Rightarrow>
              let v = v\<lparr>age_ms := Some 0\<rparr>
              in Inr (Some v, c\<lparr>mem := (mem c)(ck := map_option (\<lambda>(expiry, old). (expiry, v)) (mem c ck))\<rparr>)
          | None \<Rightarrow>
              let results = collect_results (map (run_provider B E addr cl) done);
                  merged = merge_first_good results
              in case merged of
                   Some m \<Rightarrow>
                     let ttl = CACHE_TTL_SEC_DEFAULT E;
                         ttl = (if hosting (privacy m) then min ttl 600 else ttl)
                     in Inr (Some m, cache_set t_set c ck m ttl)
                 | None \<Rightarrow> Inr (None, c))"

section \<open>Hedging schedule\<close>

text \<open>
  The timeline of the scheduling in \<open>lookup_ip\<close>, with the creation of the first tasks
  as time 0 and under the idealisation that only \<open>asyncio.sleep\<close> and the awaited
  adapters take time: the tasks of \<open>providers[:2]\<close> are created at 0, those of
  \<open>providers[2:]\<close> after \<open>asyncio.sleep(0.2)\<close>, and \<open>asyncio.wait(..., timeout=1.6)\<close>
  starts then. \<open>latency p\<close> is the time the adapter of \<open>p\<close> takes from the creation of its
  task to its return, \<open>None\<close> when it never returns. A task is done when it has returned
  by the time the wait gives up; the others are pending and are cancelled.
\<close>

definition stagger :: rat where
  "stagger = 2 / 10"

definition wait_timeout :: rat where
  "wait_timeout = 16 / 10"

definition launch_time :: "provider \<Rightarrow> rat" where
  "launch_time p = (if p \<in> set (take 2 providers) then 0 else stagger)"

definition wait_deadline :: rat where
  "wait_deadline = stagger + wait_timeout"

definition task_done :: "(provider \<Rightarrow> rat option) \<Rightarrow> provider \<Rightarrow> bool" where
  "task_done latency p =
     (case latency p of None \<Rightarrow> False | Some d \<Rightarrow> launch_time p + d \<le> wait_deadline)"

text \<open>The pair \<open>done, pending\<close> of \<open>asyncio.wait\<close>, as lists in the order of the tasks.\<close>

definition hedged_wait :: "(provider \<Rightarrow> rat option) \<Rightarrow> provider list \<times> provider list" where
  "hedged_wait latency = partition (task_done latency) providers"

section \<open>Sample records\<close>

text \<open>
  Two candidates as the adapters build them: one with coordinates, time zone, country
  code and AS number (what \<open>p_ipapi\<close> makes of the sample body below), one with a country
  code only.
\<close>

definition sample_full :: normalized where
  "sample_full =
     \<lparr>ip = JStr ''8.8.8.8'', city = JStr ''Mountain View'', region = JStr ''California'',
      region_code = JStr ''CA'', country = JStr ''United States'', country_code = JStr ''US'',
      continent = JNull, continent_code = JNull, loc = JStr ''37.500000,-122.300000'',
      postal = JStr ''94043'', timezone = JStr ''America/Los_Angeles'',
      asn = \<lparr>asn_asn = ''AS15169'', asn_name = ''GOOGLE'', asn_domain = [], asn_type = ''isp''\<rparr>,
      company = \<lparr>company_name = ''GOOGLE'', company_domain = [], company_type = ''hosting''\<rparr>,
      privacy = \<lparr>vpn = False, proxy = False, tor = False, relay = False, hosting = True\<rparr>,
      source = [''ipapi.co''], confidence = None, age_ms = None\<rparr>"

definition sample_sparse :: normalized where
  "sample_sparse =
     \<lparr>ip = JStr ''8.8.8.8'', city = JNull, region = JNull,
      region_code = JNull, country = JNull, country_code = JStr ''US'',
      continent = JNull, continent_code = JNull, loc = JNull,
      postal = JNull, timezone = JNull,
      asn = \<lparr>asn_asn = [], asn_name = [], asn_domain = [], asn_type = ''isp''\<rparr>,
      company = \<lparr>company_name = [], company_domain = [], company_type = ''isp''\<rparr>,
      privacy = \<lparr>vpn = False, proxy = False, tor = False, relay = False, hosting = False\<rparr>,
      source = [''ipinfo.io''], confidence = None, age_ms = None\<rparr>"

text \<open>
  The builtins on the arguments that the examples below pass to them: the examples
  validate the address \<open>8.8.8.8\<close>, convert no string to a float and print no float, list
  or dict.
\<close>

definition sample_builtins :: builtins where
  "sample_builtins =
     \<lparr>ip_address = (\<lambda>s. s = ''8.8.8.8''), float_of_str = (\<lambda>s. None), repr_of = (\<lambda>v. [])\<rparr>"

definition sample_env :: env where
  "sample_env = \<lparr>IPINFO_TOKEN = ''token'', BDC_KEY = ''key'', CACHE_TTL_SEC_DEFAULT = 1800\<rparr>"

text \<open>A body as ipinfo.io sends it, and a client that answers every request with it.\<close>

definition sample_ipinfo_body :: json where
  "sample_ipinfo_body =
     JObj [(''ip'', JStr ''8.8.8.8''), (''city'', JStr ''Mountain View''),
           (''region'', JStr ''California''), (''country'', JStr ''US''),
           (''loc'', JStr ''37.4056,-122.0775''), (''org'', JStr ''AS15169 Google LLC''),
           (''postal'', JStr ''94043''), (''timezone'', JStr ''America/Los_Angeles'')]"

definition client_of :: "json \<Rightarrow> client" where
  "client_of body = (\<lambda>rq. Inr (Response 200 (Inr body)))"

text \<open>Bodies as ipapi.co and BigDataCloud send them.\<close>

definition sample_ipapi_body :: json where
  "sample_ipapi_body =
     JObj [(''ip'', JStr ''8.8.8.8''), (''city'', JStr ''Mountain View''),
           (''region'', JStr ''California''), (''region_code'', JStr ''CA''),
           (''country'', JStr ''US''), (''country_name'', JStr ''United States''),
           (''postal'', JStr ''94043''),
           (''latitude'', JFloat (Fin (75 / 2))),
           (''longitude'', JFloat (Fin (- 8606097412928307 / 70368744177664))),
           (''timezone'', JStr ''America/Los_Angeles''),
           (''asn'', JStr ''AS15169''), (''org'', JStr ''GOOGLE'')]"

definition sample_bdc_body :: json where
  "sample_bdc_body =
     JObj [(''ip'', JStr ''8.8.8.8''),
           (''country'', JObj [(''isoAlpha2'', JStr ''US''), (''name'', JStr ''United States of America'')]),
           (''location'',
              JObj [(''principalSubdivision'', JStr ''California''),
                    (''isoPrincipalSubdivisionCode'', JStr ''US-CA''),
                    (''city'', JStr ''Mountain View''), (''postcode'', JStr ''94043''),
                    (''latitude'', JInt 95), (''longitude'', JInt 0),
                    (''continent'', JStr ''North America''), (''continentCode'', JStr ''NA''),
                    (''timeZone'', JObj [(''ianaTimeId'', JStr ''America/Los_Angeles'')])]),
           (''network'',
              JObj [(''registeredCountry'', JStr ''US''), (''organisation'', JStr ''GOOGLE''),
                    (''carriers'', JList [JObj [(''asn'', JStr ''AS15169''),
                                                (''organisation'', JStr ''Google LLC'')]])])]"

section \<open>Properties of the merge\<close>


lemma distinct_fromkeys: "distinct seen \<Longrightarrow> distinct (fromkeys seen xs)"
  by (induction xs arbitrary: seen) auto




lemma hd_insort_key:
  "hd (insort_key f x ys) = (if ys = [] \<or> f x \<le> f (hd ys) then x else hd ys)"
  by (cases ys) auto

lemma sort_key_Nil_iff: "sort_key f xs = [] \<longleftrightarrow> xs = []"
  by (metis length_sort list.size(3) length_0_conv)

lemma hd_sort_key_first_min:
  "xs \<noteq> [] \<Longrightarrow>
     \<exists>i<length xs. hd (sort_key f xs) = xs ! i
        \<and> (\<forall>x\<in>set xs. f (xs ! i) \<le> f x)
        \<and> (\<forall>j<i. f (xs ! i) < f (xs ! j))"
proof (induction xs)
  case Nil
  then show ?case by simp
next
  case (Cons x xs)
  show ?case
  proof (cases "xs = []")
    case True
    then show ?thesis by simp
  next
    case False
    from Cons.IH [OF False] obtain i where i: "i < length xs"
      and h: "hd (sort_key f xs) = xs ! i"
      and least: "\<forall>y\<in>set xs. f (xs ! i) \<le> f y"
      and first: "\<forall>j<i. f (xs ! i) < f (xs ! j)"
      by blast
    have ne: "sort_key f xs \<noteq> []"
      using False by (simp add: sort_key_Nil_iff)
    have hd_eq: "hd (sort_key f (x # xs)) = (if f x \<le> f (xs ! i) then x else xs ! i)"
      using ne h by (simp add: hd_insort_key)
    show ?thesis
    proof (cases "f x \<le> f (xs ! i)")
      case True
      have "hd (sort_key f (x # xs)) = (x # xs) ! 0"
        using True hd_eq by simp
      moreover have "\<forall>y\<in>set (x # xs). f ((x # xs) ! 0) \<le> f y"
        using True least by auto
      ultimately show ?thesis by (intro exI [of _ 0]) simp
    next
      case False
      have "hd (sort_key f (x # xs)) = (x # xs) ! Suc i"
        using False hd_eq by simp
      moreover have "\<forall>y\<in>set (x # xs). f ((x # xs) ! Suc i) \<le> f y"
        using False least by auto
      moreover have "\<forall>j<Suc i. f ((x # xs) ! Suc i) < f ((x # xs) ! j)"
      proof (intro allI impI)
        fix j assume "j < Suc i"
        then show "f ((x # xs) ! Suc i) < f ((x # xs) ! j)"
          using False first by (cases j) auto
      qed
      ultimately show ?thesis using i by (intro exI [of _ "Suc i"]) simp
    qed
  qed
qed


lemma sort_reverse_Nil_iff: "sort_reverse key xs = [] \<longleftrightarrow> xs = []"
  by (simp add: sort_reverse_def sort_key_Nil_iff)



lemma merge_first_good_eq:
  assumes "results \<noteq> []"
  shows "merge_first_good results =
           Some ((hd (sort_reverse score results))
             \<lparr>source := fromkeys [] (concat (map source (sort_reverse score results))),
              confidence := Some
                (if 2 \<le> length (fromkeys [] (concat (map source (sort_reverse score results))))
                      \<and> truthy (loc (hd (sort_reverse score results))) then float_0_9
                 else if truthy (loc (hd (sort_reverse score results))) then float_0_7
                 else float_0_6),
              age_ms := Some 0\<rparr>)"
proof -
  obtain b rest where s: "sort_reverse score results = b # rest"
    using assms by (cases "sort_reverse score results") (auto simp: sort_reverse_Nil_iff)
  show ?thesis
    using assms by (simp add: merge_first_good_def s Let_def)
qed

lemma hd_sort_reverse_first_max:
  assumes "xs \<noteq> []"
  shows "\<exists>i<length xs. hd (sort_reverse key xs) = xs ! i
        \<and> (\<forall>x\<in>set xs. key x \<le> key (xs ! i))
        \<and> (\<forall>j<i. key (xs ! j) < key (xs ! i))"
  using hd_sort_key_first_min [OF assms, of "\<lambda>x. - key x"]
  by (simp add: sort_reverse_def)

lemma score_eq:
  "score d = (if truthy (loc d) then 3 else 0) + (if truthy (timezone d) then 1 else 0)
      + (if truthy (country d) \<or> truthy (country_code d) then 1 else 0)
      + (if asn_asn (asn d) \<noteq> [] then 1 else 0)"
  by (simp add: score_def py_or_def Let_def)

text \<open>
  Claim C1. The score of a candidate is 3 for a truthy \<open>loc\<close>, plus 1 for a truthy
  \<open>timezone\<close>, plus 1 for a truthy \<open>country\<close> or \<open>country_code\<close>, plus 1 for a non-empty
  \<open>asn.asn\<close> (a field is present when Python takes it as true: not \<open>None\<close> and not empty).
  For a non-empty list of candidates the merge returns a record whose body is that of
  the candidate at some position \<open>i\<close> of the input; no candidate scores higher, and every
  candidate before position \<open>i\<close> scores strictly lower: the first candidate of maximal
  score wins.
\<close>

theorem merge_base_is_first_maximal:
  assumes "results \<noteq> []"
  shows "(\<forall>d. score d = (if truthy (loc d) then 3 else 0) + (if truthy (timezone d) then 1 else 0)
             + (if truthy (country d) \<or> truthy (country_code d) then 1 else 0)
             + (if asn_asn (asn d) \<noteq> [] then 1 else 0))
       \<and> (\<exists>m i. merge_first_good results = Some m \<and> i < length results
             \<and> same_body m (results ! i)
             \<and> (\<forall>d\<in>set results. score d \<le> score (results ! i))
             \<and> (\<forall>j<i. score (results ! j) < score (results ! i)))"
proof -
  obtain i where i: "i < length results"
    and h: "hd (sort_reverse score results) = results ! i"
    and mx: "\<forall>d\<in>set results. score d \<le> score (results ! i)"
    and fst: "\<forall>j<i. score (results ! j) < score (results ! i)"
    using hd_sort_reverse_first_max [OF assms, of score] by blast
  have "same_body (the (merge_first_good results)) (results ! i)"
    by (simp add: merge_first_good_eq [OF assms] h same_body_def)
  moreover have "merge_first_good results = Some (the (merge_first_good results))"
    by (simp add: merge_first_good_eq [OF assms])
  ultimately show ?thesis
    using i mx fst score_eq by blast
qed

text \<open>The hypothesis of C1 at a list of three candidates.\<close>

theorem merge_base_is_first_maximal_witness:
  "[sample_sparse, sample_full, sample_full\<lparr>city := JNull\<rparr>] \<noteq> []
   \<and> (\<exists>m i. merge_first_good [sample_sparse, sample_full, sample_full\<lparr>city := JNull\<rparr>] = Some m
         \<and> i < length [sample_sparse, sample_full, sample_full\<lparr>city := JNull\<rparr>]
         \<and> same_body m ([sample_sparse, sample_full, sample_full\<lparr>city := JNull\<rparr>] ! i))"
  using merge_base_is_first_maximal [of "[sample_sparse, sample_full, sample_full\<lparr>city := JNull\<rparr>]"]
  by blast

lemma merge_samples:
  "merge_first_good [sample_sparse, sample_full, sample_full\<lparr>city := JNull\<rparr>]
     = Some (sample_full\<lparr>source := [''ipapi.co'', ''ipinfo.io''], confidence := Some float_0_9, age_ms := Some 0\<rparr>)"
  by (simp add: merge_first_good_def sort_reverse_def score_def sample_full_def sample_sparse_def py_or_def Let_def)


text \<open>
  Claim C3. The confidence of a merged result is 0.9 when its source list has at
  least two distinct entries and its \<open>loc\<close> is truthy, else 0.7 when its \<open>loc\<close> is truthy,
  else 0.6; it is never anything else.
\<close>

theorem merge_confidence:
  assumes "merge_first_good results = Some m"
  shows "confidence m = Some (if 2 \<le> card (set (source m)) \<and> truthy (loc m) then float_0_9
                              else if truthy (loc m) then float_0_7 else float_0_6)
       \<and> confidence m \<in> {Some float_0_9, Some float_0_7, Some float_0_6}"
proof -
  have ne: "results \<noteq> []"
    using assms by (auto simp: merge_first_good_def)
  let ?srcs = "fromkeys [] (concat (map source (sort_reverse score results)))"
  have "distinct ?srcs"
    by (simp add: distinct_fromkeys)
  then have card: "card (set ?srcs) = length ?srcs"
    by (rule distinct_card)
  show ?thesis
    using assms card by (auto simp: merge_first_good_eq [OF ne])
qed

text \<open>The hypothesis of C3 at two candidates from two providers, the winner with a \<open>loc\<close>.\<close>

theorem merge_confidence_witness:
  "merge_first_good [sample_sparse, sample_full] = Some (sample_full\<lparr>source := [''ipapi.co'', ''ipinfo.io''], confidence := Some float_0_9, age_ms := Some 0\<rparr>)
   \<and> confidence (sample_full\<lparr>source := [''ipapi.co'', ''ipinfo.io''], confidence := Some float_0_9, age_ms := Some 0\<rparr>) = Some float_0_9"
proof -
  have m: "merge_first_good [sample_sparse, sample_full]
     = Some (sample_full\<lparr>source := [''ipapi.co'', ''ipinfo.io''], confidence := Some float_0_9, age_ms := Some 0\<rparr>)"
    by (simp add: merge_first_good_def sort_reverse_def score_def sample_full_def sample_sparse_def py_or_def Let_def)
  show ?thesis
    using m merge_confidence [OF m] by simp
qed



text \<open>There the candidate with the higher score is walked first, so \<open>"b"\<close> comes first.\<close>

lemma merge_dedup_example:
  "map_option source (merge_first_good [sample_sparse\<lparr>source := [''a'']\<rparr>, sample_full\<lparr>source := [''b'', ''a'']\<rparr>])
     = Some [''b'', ''a'']"
  by (simp add: merge_first_good_def sort_reverse_def score_def sample_full_def sample_sparse_def py_or_def Let_def)


section \<open>Properties of the cache\<close>

lemma cache_get_expired:
  "mem c key = Some (expiry, val) \<Longrightarrow> expiry < now \<Longrightarrow>
     cache_get now c key = (None, c\<lparr>mem := (mem c)(key := None)\<rparr>)"
  by (simp add: cache_get_def)

lemma cache_get_Some:
  "fst (cache_get now c key) = Some v \<Longrightarrow>
     (\<exists>expiry. mem c key = Some (expiry, v) \<and> now \<le> expiry) \<and> snd (cache_get now c key) = c"
  by (cases "mem c key") (auto simp: cache_get_def split: if_splits)

lemma cache_get_after_set:
  "now \<le> t + of_int ttl \<Longrightarrow> cache_get now (cache_set t c key val ttl) key = (Some val, cache_set t c key val ttl)"
  by (simp add: cache_get_def cache_set_def)

text \<open>
  Claim C7. In the in-process backend, a \<open>get\<close> that finds an entry whose expiry time is
  before the time of the read returns nothing and removes that entry, leaving every other
  key alone; whenever \<open>get\<close> returns a record, it is the stored one, its expiry time is
  not in the past, and the cache is unchanged; and a \<open>get\<close> at a time not after the time
  of the \<open>set\<close> plus the TTL returns the record that was set.
\<close>

theorem cache_get_never_expired:
  "(\<forall>expiry val. mem c key = Some (expiry, val) \<and> expiry < now \<longrightarrow>
       fst (cache_get now c key) = None
     \<and> mem (snd (cache_get now c key)) key = None
     \<and> (\<forall>k. k \<noteq> key \<longrightarrow> mem (snd (cache_get now c key)) k = mem c k))
 \<and> (\<forall>v. fst (cache_get now c key) = Some v \<longrightarrow>
       (\<exists>expiry. mem c key = Some (expiry, v) \<and> now \<le> expiry) \<and> snd (cache_get now c key) = c)
 \<and> (\<forall>t val ttl. now \<le> t + of_int ttl \<longrightarrow>
       fst (cache_get now (cache_set t c key val ttl) key) = Some val)"
proof (intro conjI allI impI)
  fix expiry val
  assume a: "mem c key = Some (expiry, val) \<and> expiry < now"
  then have e: "cache_get now c key = (None, c\<lparr>mem := (mem c)(key := None)\<rparr>)"
    by (simp add: cache_get_expired)
  show "fst (cache_get now c key) = None" by (simp add: e)
  show "mem (snd (cache_get now c key)) key = None" by (simp add: e)
  fix k assume "k \<noteq> key"
  then show "mem (snd (cache_get now c key)) k = mem c k" by (simp add: e)
next
  fix v assume "fst (cache_get now c key) = Some v"
  then show "\<exists>expiry. mem c key = Some (expiry, v) \<and> now \<le> expiry"
    and "snd (cache_get now c key) = c"
    using cache_get_Some by blast+
next
  fix t val ttl assume "now \<le> t + rat_of_int ttl"
  then show "fst (cache_get now (cache_set t c key val ttl) key) = Some val"
    by (simp add: cache_get_after_set)
qed


text \<open>
  The hypotheses of C7 at an entry set at time 100 with a TTL of one second: read at
  time 102 it is expired, read at time 100 it is returned.
\<close>

theorem cache_get_never_expired_witness:
  "mem (cache_set 100 \<lparr>mem = Map.empty\<rparr> ''ip:8.8.8.8'' sample_full 1) ''ip:8.8.8.8'' = Some (101, sample_full)
   \<and> (101::rat) < 102
   \<and> fst (cache_get 102 (cache_set 100 \<lparr>mem = Map.empty\<rparr> ''ip:8.8.8.8'' sample_full 1) ''ip:8.8.8.8'') = None
   \<and> (100::rat) \<le> 100 + of_int 1
   \<and> fst (cache_get 100 (cache_set 100 \<lparr>mem = Map.empty\<rparr> ''ip:8.8.8.8'' sample_full 1) ''ip:8.8.8.8'') = Some sample_full"
proof -
  let ?c = "cache_set 100 \<lparr>mem = Map.empty\<rparr> ''ip:8.8.8.8'' sample_full 1"
  have m: "mem ?c ''ip:8.8.8.8'' = Some (101, sample_full) \<and> (101::rat) < 102"
    by (simp add: cache_set_def)
  have le: "(100::rat) \<le> 100 + of_int 1" by simp
  have "\<forall>expiry val. mem ?c ''ip:8.8.8.8'' = Some (expiry, val) \<and> expiry < 102 \<longrightarrow>
          fst (cache_get 102 ?c ''ip:8.8.8.8'') = None
        \<and> mem (snd (cache_get 102 ?c ''ip:8.8.8.8'')) ''ip:8.8.8.8'' = None
        \<and> (\<forall>k. k \<noteq> ''ip:8.8.8.8'' \<longrightarrow> mem (snd (cache_get 102 ?c ''ip:8.8.8.8'')) k = mem ?c k)"
    using cache_get_never_expired [of ?c "''ip:8.8.8.8''" 102] by (rule conjunct1)
  then have "mem ?c ''ip:8.8.8.8'' = Some (101, sample_full) \<and> (101::rat) < 102 \<longrightarrow>
          fst (cache_get 102 ?c ''ip:8.8.8.8'') = None
        \<and> mem (snd (cache_get 102 ?c ''ip:8.8.8.8'')) ''ip:8.8.8.8'' = None
        \<and> (\<forall>k. k \<noteq> ''ip:8.8.8.8'' \<longrightarrow> mem (snd (cache_get 102 ?c ''ip:8.8.8.8'')) k = mem ?c k)"
    by (elim allE)
  with m have none: "fst (cache_get 102 ?c ''ip:8.8.8.8'') = None"
    by (elim impE conjE) auto
  have "\<forall>t val ttl. (100::rat) \<le> t + of_int ttl \<longrightarrow>
          fst (cache_get 100 (cache_set t \<lparr>mem = Map.empty\<rparr> ''ip:8.8.8.8'' val ttl) ''ip:8.8.8.8'') = Some val"
    using cache_get_never_expired [of "\<lparr>mem = Map.empty\<rparr>" "''ip:8.8.8.8''" 100]
    by (elim conjE)
  then have "(100::rat) \<le> 100 + of_int 1 \<longrightarrow>
          fst (cache_get 100 ?c ''ip:8.8.8.8'') = Some sample_full"
    by (elim allE)
  with le have some: "fst (cache_get 100 ?c ''ip:8.8.8.8'') = Some sample_full"
    by (elim impE)
  from m le none some show ?thesis
    by (intro conjI) (elim conjE, assumption)+
qed


section \<open>Properties of the adapters\<close>

lemma except_return_None_Inr: "\<exists>r. except_return_None body = Inr r"
  by (cases body) (simp_all add: except_return_None_def)

lemma p_ipapi_returns: "\<exists>r. p_ipapi B addr cl = Inr r"
  by (simp add: p_ipapi_def except_return_None_Inr)

lemma p_ipinfo_returns: "\<exists>r. p_ipinfo B E addr cl = Inr r"
  by (simp add: p_ipinfo_def Let_def except_return_None_Inr)

lemma p_bigdatacloud_returns: "\<exists>r. p_bigdatacloud B E addr cl = Inr r"
  by (simp add: p_bigdatacloud_def Let_def except_return_None_Inr)

lemma raise_bind_Inl [simp]: "raise_bind (Inl e) f = Inl e"
  by (simp add: raise_bind_def)

lemma raise_bind_Inr [simp]: "raise_bind (Inr v) f = f v"
  by (simp add: raise_bind_def)

lemma p_ipapi_no_data:
  assumes "no_data (cl \<lparr>url = ''https://ipapi.co/'' @ addr @ ''/json/'', params = []\<rparr>)"
  shows "p_ipapi B addr cl = Inr None"
proof (cases "cl \<lparr>url = ''https://ipapi.co/'' @ addr @ ''/json/'', params = []\<rparr>")
  case (Inl e)
  then show ?thesis
    by (simp add: p_ipapi_def p_ipapi_body_def except_return_None_def)
next
  case (Inr r)
  then have "status_code r \<noteq> 200 \<or> (\<exists>e. json_body r = Inl e)"
    using assms by (simp add: no_data_def)
  then show ?thesis
    using Inr by (auto simp: p_ipapi_def p_ipapi_body_def except_return_None_def)
qed

lemma p_ipinfo_no_data:
  assumes "no_data (cl \<lparr>url = ''https://ipinfo.io/'' @ addr @ ''?token='' @ IPINFO_TOKEN E, params = []\<rparr>)"
  shows "p_ipinfo B E addr cl = Inr None"
proof (cases "cl \<lparr>url = ''https://ipinfo.io/'' @ addr @ ''?token='' @ IPINFO_TOKEN E, params = []\<rparr>")
  case (Inl e)
  then show ?thesis
    by (simp add: p_ipinfo_def p_ipinfo_body_def except_return_None_def Let_def)
next
  case (Inr r)
  then have "status_code r \<noteq> 200 \<or> (\<exists>e. json_body r = Inl e)"
    using assms by (simp add: no_data_def)
  then show ?thesis
    using Inr by (auto simp: p_ipinfo_def p_ipinfo_body_def except_return_None_def Let_def)
qed

lemma p_bigdatacloud_no_data:
  assumes "no_data (cl \<lparr>url = ''https://api.bigdatacloud.net/data/ip-geolocation'',
                        params = [(''ip'', addr), (''localityLanguage'', ''en''), (''key'', BDC_KEY E)]\<rparr>)"
  shows "p_bigdatacloud B E addr cl = Inr None"
proof (cases "cl \<lparr>url = ''https://api.bigdatacloud.net/data/ip-geolocation'',
                        params = [(''ip'', addr), (''localityLanguage'', ''en''), (''key'', BDC_KEY E)]\<rparr>")
  case (Inl e)
  then show ?thesis
    by (simp add: p_bigdatacloud_def p_bigdatacloud_body_def except_return_None_def Let_def)
next
  case (Inr r)
  then have "status_code r \<noteq> 200 \<or> (\<exists>e. json_body r = Inl e)"
    using assms by (simp add: no_data_def)
  then show ?thesis
    using Inr by (auto simp: p_bigdatacloud_def p_bigdatacloud_body_def except_return_None_def Let_def)
qed


text \<open>
  Claim C5. No adapter raises: each returns a value for every address, client and
  configuration. When the request raises, when the status of the response is not 200
  (so for every status outside 2xx), and when the body does not decode, each returns
  \<open>None\<close>; \<open>p_ipinfo\<close> without \<open>IPINFO_TOKEN\<close> and \<open>p_bigdatacloud\<close> without \<open>BDC_KEY\<close>
  return \<open>None\<close>.
\<close>

theorem adapters_never_raise:
  "(\<exists>r. p_ipapi B addr cl = Inr r) \<and> (\<exists>r. p_ipinfo B E addr cl = Inr r)
   \<and> (\<exists>r. p_bigdatacloud B E addr cl = Inr r)
   \<and> ((\<forall>rq. no_data (cl rq)) \<longrightarrow>
         p_ipapi B addr cl = Inr None \<and> p_ipinfo B E addr cl = Inr None
         \<and> p_bigdatacloud B E addr cl = Inr None)
   \<and> (IPINFO_TOKEN E = [] \<longrightarrow> p_ipinfo B E addr cl = Inr None)
   \<and> (BDC_KEY E = [] \<longrightarrow> p_bigdatacloud B E addr cl = Inr None)"
proof (intro conjI impI)
  show "\<exists>r. p_ipapi B addr cl = Inr r" by (rule p_ipapi_returns)
  show "\<exists>r. p_ipinfo B E addr cl = Inr r" by (rule p_ipinfo_returns)
  show "\<exists>r. p_bigdatacloud B E addr cl = Inr r" by (rule p_bigdatacloud_returns)
next
  assume a: "\<forall>rq. no_data (cl rq)"
  show "p_ipapi B addr cl = Inr None" using a by (simp add: p_ipapi_no_data)
  show "p_ipinfo B E addr cl = Inr None" using a by (simp add: p_ipinfo_no_data)
  show "p_bigdatacloud B E addr cl = Inr None" using a by (simp add: p_bigdatacloud_no_data)
next
  assume "IPINFO_TOKEN E = []"
  then show "p_ipinfo B E addr cl = Inr None" by (simp add: p_ipinfo_def)
next
  assume "BDC_KEY E = []"
  then show "p_bigdatacloud B E addr cl = Inr None" by (simp add: p_bigdatacloud_def)
qed

text \<open>
  The hypotheses of C5 at a client whose every request fails in transport, at one that
  answers 503, at one whose body is not JSON, and at a configuration without credentials.
\<close>

theorem adapters_never_raise_witness:
  "(\<forall>rq::request. no_data ((\<lambda>rq. Inl TransportError) rq))
   \<and> (\<forall>rq::request. no_data ((\<lambda>rq. Inr (Response 503 (Inr JNull))) rq))
   \<and> (\<forall>rq::request. no_data ((\<lambda>rq. Inr (Response 200 (Inl JSONDecodeError))) rq))
   \<and> p_ipapi sample_builtins ''8.8.8.8'' (\<lambda>rq. Inl TransportError) = Inr None
   \<and> p_ipinfo sample_builtins sample_env ''8.8.8.8'' (\<lambda>rq. Inr (Response 503 (Inr JNull))) = Inr None
   \<and> p_bigdatacloud sample_builtins sample_env ''8.8.8.8'' (\<lambda>rq. Inr (Response 200 (Inl JSONDecodeError))) = Inr None
   \<and> IPINFO_TOKEN (sample_env\<lparr>IPINFO_TOKEN := []\<rparr>) = []
   \<and> p_ipinfo sample_builtins (sample_env\<lparr>IPINFO_TOKEN := []\<rparr>) ''8.8.8.8'' (client_of sample_ipinfo_body) = Inr None
   \<and> BDC_KEY (sample_env\<lparr>BDC_KEY := []\<rparr>) = []
   \<and> p_bigdatacloud sample_builtins (sample_env\<lparr>BDC_KEY := []\<rparr>) ''8.8.8.8'' (client_of sample_ipinfo_body) = Inr None"
proof -
  have 1: "\<forall>rq::request. no_data ((\<lambda>rq. Inl TransportError) rq)"
    and 2: "\<forall>rq::request. no_data ((\<lambda>rq. Inr (Response 503 (Inr JNull))) rq)"
    and 3: "\<forall>rq::request. no_data ((\<lambda>rq. Inr (Response 200 (Inl JSONDecodeError))) rq)"
    by (simp_all add: no_data_def)
  have 4: "IPINFO_TOKEN (sample_env\<lparr>IPINFO_TOKEN := []\<rparr>) = []"
    and 5: "BDC_KEY (sample_env\<lparr>BDC_KEY := []\<rparr>) = []"
    by simp_all
  have a: "p_ipapi sample_builtins ''8.8.8.8'' (\<lambda>rq. Inl TransportError) = Inr None"
    using 1 adapters_never_raise [of sample_builtins "''8.8.8.8''" "\<lambda>rq. Inl TransportError" sample_env]
    by blast
  have b: "p_ipinfo sample_builtins sample_env ''8.8.8.8'' (\<lambda>rq. Inr (Response 503 (Inr JNull))) = Inr None"
    using 2 adapters_never_raise [of sample_builtins "''8.8.8.8''" "\<lambda>rq. Inr (Response 503 (Inr JNull))" sample_env]
    by blast
  have c: "p_bigdatacloud sample_builtins sample_env ''8.8.8.8'' (\<lambda>rq. Inr (Response 200 (Inl JSONDecodeError))) = Inr None"
    using 3 adapters_never_raise [of sample_builtins "''8.8.8.8''" "\<lambda>rq. Inr (Response 200 (Inl JSONDecodeError))" sample_env]
    by blast
  have d: "p_ipinfo sample_builtins (sample_env\<lparr>IPINFO_TOKEN := []\<rparr>) ''8.8.8.8'' (client_of sample_ipinfo_body) = Inr None"
    using 4 adapters_never_raise [of sample_builtins "''8.8.8.8''" "client_of sample_ipinfo_body" "sample_env\<lparr>IPINFO_TOKEN := []\<rparr>"]
    by blast
  have e: "p_bigdatacloud sample_builtins (sample_env\<lparr>BDC_KEY := []\<rparr>) ''8.8.8.8'' (client_of sample_ipinfo_body) = Inr None"
    using 5 adapters_never_raise [of sample_builtins "''8.8.8.8''" "client_of sample_ipinfo_body" "sample_env\<lparr>BDC_KEY := []\<rparr>"]
    by blast
  show ?thesis
    by (intro conjI) (rule 1 2 3 a b c 4 d 5 e)+
qed

end
